theory Spec2Isabelle
  imports Main "HOL-Library.Word"
begin

section \<open>Python string primitives used by the configuration flow\<close>

text \<open>
  Strings are lists of characters.  \<open>rfind\<close> is Python's \<open>str.rfind\<close> for a
  one-character needle: the highest index of the character, or \<open>-1\<close> when it does not occur.
\<close>

fun rfind :: "string \<Rightarrow> char \<Rightarrow> int" where
  "rfind [] c = - 1"
| "rfind (x # xs) c =
     (if c \<in> set xs then rfind xs c + 1 else if x = c then 0 else - 1)"

text \<open>
  Python's slice \<open>s[a:b]\<close> with integer bounds: a negative bound counts from the end,
  every bound is clamped to the range of the string, and an empty range gives the empty string.
\<close>

definition slice_index :: "nat \<Rightarrow> int \<Rightarrow> nat" where
  "slice_index n i = (if i < 0 then nat (max 0 (int n + i)) else min n (nat i))"

definition py_slice :: "'a list \<Rightarrow> int \<Rightarrow> int \<Rightarrow> 'a list" where
  "py_slice s a b =
     take (slice_index (length s) b - slice_index (length s) a)
          (drop (slice_index (length s) a) s)"

definition startswith :: "string \<Rightarrow> string \<Rightarrow> bool" where
  "startswith s p = (take (length p) s = p)"

text \<open>The ASCII characters that Python's \<open>str.strip()\<close> removes.\<close>

definition is_space :: "char \<Rightarrow> bool" where
  "is_space c = (c \<in> set [CHR 0x09, CHR 0x0A, CHR 0x0B, CHR 0x0C, CHR 0x0D,
                            CHR 0x1C, CHR 0x1D, CHR 0x1E, CHR 0x1F, CHR 0x20])"

definition strip :: "string \<Rightarrow> string" where
  "strip s = rev (dropWhile is_space (rev (dropWhile is_space s)))"

text \<open>Truth value of \<open>d.get(key)\<close> for a string-valued key: missing, \<open>None\<close> and the
  empty string are false.\<close>

definition truthy :: "string option \<Rightarrow> bool" where
  "truthy v = (case v of None \<Rightarrow> False | Some s \<Rightarrow> s \<noteq> [])"

text \<open>The display label \<open>f"{name} ({prefix})"\<close>.\<close>

definition display_name :: "string \<Rightarrow> string \<Rightarrow> string" where
  "display_name nm prefix = nm @ '' ('' @ prefix @ '')''"

text \<open>
  Lines 316-318 and 485-487: the text between the last opening and the last closing
  parenthesis of a label.
\<close>

definition extract_prefix :: "string \<Rightarrow> string" where
  "extract_prefix selected_str =
     py_slice selected_str (rfind selected_str CHR ''('' + 1) (rfind selected_str CHR '')'')"

text \<open>Line 489: everything before the last opening parenthesis, stripped.\<close>

definition extract_name :: "string \<Rightarrow> string" where
  "extract_name selected_str =
     strip (py_slice selected_str 0 (rfind selected_str CHR ''('' + 1 - 1))"

section \<open>Data model\<close>

text \<open>
  A repeater subscription is the dictionary built at lines 547-554.  The fields read with
  \<open>.get\<close> are optional: \<open>None\<close> stands for a missing key or a \<open>None\<close> value.
\<close>

record subscription =
  name :: "string option"
  pubkey_prefix :: "string option"
  firmware_version :: "string option"
  password :: "string option"
  update_interval :: int
  enabled :: bool

text \<open>
  An entry of the coordinator's \<open>_contacts\<close> cache.  \<open>_get_repeater_contacts\<close> skips
  entries that are not dictionaries.
\<close>

record cached_contact =
  adv_name :: "string option"
  contact_type :: "int option"
  cached_public_key :: "string option"

datatype cache_entry = Not_a_dict | Contact_dict cached_contact

text \<open>
  What \<open>self.hass\<close> offers to \<open>_get_repeater_contacts\<close>: no \<open>hass\<close>, no data for the
  domain, no coordinator for the entry, a coordinator without \<open>_contacts\<close>, or the cache.
\<close>

datatype hass_data =
    No_hass
  | No_domain
  | No_coordinator
  | No_contacts_attribute
  | Contacts "cache_entry list"

text \<open>
  \<open>NodeType\<close> is declared in \<open>const.py\<close>; the values are the ones named in the comment at
  line 416.
\<close>

definition REPEATER :: int where "REPEATER = 2"
definition ROOM_SERVER :: int where "ROOM_SERVER = 3"

text \<open>A contact as the device library hands it out; it is resolved by its public key,
  so it carries one.\<close>

record contact =
  contact_adv_name :: string
  public_key :: string

datatype event_type =
    ERROR | OK | SELF_INFO | LOGIN_SUCCESS | LOGIN_FAILED | MSG_SENT | CONTACT_MSG_RECV
  | Other_event

record event =
  ev_type :: event_type
  payload :: "(string \<times> string) list"

text \<open>
  The device library (\<open>meshcore\<close>) is external: its answers are parameters of the model.
  \<open>wait_for_event\<close> takes the event type, the optional \<open>pubkey_prefix\<close> filter and the
  timeout in seconds, and returns \<open>None\<close> when the timeout elapses.
\<close>

record meshcore =
  get_contact_by_key_prefix :: "string \<Rightarrow> contact option"
  send_login :: "contact \<Rightarrow> string option \<Rightarrow> event"
  send_cmd :: "contact \<Rightarrow> string \<Rightarrow> event"
  wait_for_event :: "event_type \<Rightarrow> string option \<Rightarrow> nat \<Rightarrow> event option"

text \<open>The calls made on the device library, in order, with their arguments.\<close>

datatype command =
    Send_login contact "string option"
  | Send_cmd contact string
  | Wait_for_event event_type "string option" nat

datatype py_exception = AttributeError | TypeError

text \<open>
  What a step of the options flow returns: the form with the action menu and the removal
  choices, the add-repeater form with its \<open>errors["base"]\<close>, the form shown when no repeater
  is known, the final entry, or an exception that leaves the step.
\<close>

datatype flow_result =
    Init_form "string list"
  | Add_repeater_form "string option"
  | No_repeaters_form
  | Create_entry
  | Raised py_exception

text \<open>
  The state of \<open>OptionsFlowHandler\<close>: its own list, the list last stored in the config entry
  with \<open>async_update_entry\<close>, and the framework data.
\<close>

record options_flow =
  repeater_subscriptions :: "subscription list"
  entry_subscriptions :: "subscription list"
  hass :: hass_data

record step_result =
  result :: flow_result
  flow :: options_flow
  commands :: "command list"

record add_input =
  repeater_name :: "string option"
  repeater_password :: "string option"
  repeater_update_interval :: "int option"

record init_input =
  action :: "string option"
  repeater_to_remove :: "string option"

section \<open>The options flow\<close>

text \<open>Lines 406-423: one cache entry contributes at most one \<open>(prefix, name)\<close> pair.\<close>

definition repeater_contact_of :: "cache_entry \<Rightarrow> (string \<times> string) list" where
  "repeater_contact_of e =
     (case e of
        Not_a_dict \<Rightarrow> []
      | Contact_dict c \<Rightarrow>
          (case adv_name c of
             None \<Rightarrow> []
           | Some contact_name \<Rightarrow>
               if contact_name = [] then []
               else if contact_type c = Some REPEATER \<or> contact_type c = Some ROOM_SERVER then
                 (let pfx =
                        (if truthy (cached_public_key c)
                         then py_slice (the (cached_public_key c)) 0 12 else [])
                  in if pfx \<noteq> [] then [(pfx, contact_name)] else [])
               else []))"

definition get_repeater_contacts :: "hass_data \<Rightarrow> (string \<times> string) list" where
  "get_repeater_contacts h =
     (case h of
        Contacts cs \<Rightarrow> concat (map repeater_contact_of cs)
      | _ \<Rightarrow> [])"

text \<open>
  Lines 352-361: the labels offered for removal, one for every subscription with a non-empty
  name and prefix (as keys of a dictionary, equal labels are offered once).
\<close>

definition repeater_entries :: "subscription list \<Rightarrow> string list" where
  "repeater_entries subs =
     map (\<lambda>r. display_name (the (name r)) (the (pubkey_prefix r)))
         (filter (\<lambda>r. truthy (name r) \<and> truthy (pubkey_prefix r)) subs)"

text \<open>Lines 340-386: \<open>async_step_init\<close> without input shows the menu.\<close>

definition show_init_form :: "options_flow \<Rightarrow> command list \<Rightarrow> step_result" where
  "show_init_form st cmds =
     \<lparr>result = Init_form (repeater_entries (repeater_subscriptions st)),
      flow = st, commands = cmds\<rparr>"

text \<open>Lines 321-325: the test a subscription passes to be kept by a removal.\<close>

definition kept :: "string \<Rightarrow> subscription \<Rightarrow> bool" where
  "kept pubkey_prefix_to_remove r =
     (\<not> (truthy (pubkey_prefix r) \<and>
         startswith (the (pubkey_prefix r)) pubkey_prefix_to_remove))"

text \<open>
  Lines 309-333: the removal.  The handler's list is replaced first; storing it in the config
  entry goes through \<open>self.hass\<close>, which raises when \<open>hass\<close> is still \<open>None\<close>; otherwise the
  menu is shown again.
\<close>

definition remove_repeater :: "options_flow \<Rightarrow> string \<Rightarrow> step_result" where
  "remove_repeater st selected_str =
     (let subs = filter (kept (extract_prefix selected_str)) (repeater_subscriptions st)
      in if hass st = No_hass then
           \<lparr>result = Raised AttributeError,
            flow = st\<lparr>repeater_subscriptions := subs\<rparr>, commands = []\<rparr>
         else
           show_init_form
             (st\<lparr>repeater_subscriptions := subs, entry_subscriptions := subs\<rparr>) [])"

text \<open>Lines 539-544: the firmware version read from the awaited message.\<close>

definition version_of :: "event option \<Rightarrow> string option" where
  "version_of msg =
     (case msg of
        None \<Rightarrow> Some ''Unknown''
      | Some m \<Rightarrow>
          if ev_type m = ERROR then Some ''Unknown''
          else if ev_type m = CONTACT_MSG_RECV then map_of (payload m) ''text''
          else Some ''Unknown'')"

text \<open>
  Lines 529-562: after a successful login the version is asked for, the answer is awaited
  for 15 seconds under the contact's key prefix, and the subscription is appended and stored.
  The result of sending the version query is only logged.
\<close>

definition new_subscription ::
  "int \<Rightarrow> add_input \<Rightarrow> string \<Rightarrow> event option \<Rightarrow> subscription" where
  "new_subscription default_interval ui selected_str msg =
     \<lparr>name = Some (extract_name selected_str),
      pubkey_prefix = Some (extract_prefix selected_str),
      firmware_version = version_of msg,
      password = repeater_password ui,
      update_interval =
        (case repeater_update_interval ui of None \<Rightarrow> default_interval | Some i \<Rightarrow> i),
      enabled = True\<rparr>"

definition probe_and_subscribe ::
  "int \<Rightarrow> meshcore \<Rightarrow> options_flow \<Rightarrow> add_input \<Rightarrow> string \<Rightarrow> contact \<Rightarrow> command list
     \<Rightarrow> step_result" where
  "probe_and_subscribe default_interval mc st ui selected_str c cmds =
     (let flt = py_slice (public_key c) 0 12;
          msg = wait_for_event mc CONTACT_MSG_RECV (Some flt) 15;
          subs = repeater_subscriptions st @
                   [new_subscription default_interval ui selected_str msg]
      in show_init_form (st\<lparr>repeater_subscriptions := subs, entry_subscriptions := subs\<rparr>)
           (cmds @ [Send_cmd c ''ver'', Wait_for_event CONTACT_MSG_RECV (Some flt) 15]))"

text \<open>Lines 507-526: the login, and what its outcomes lead to.\<close>

definition login_failed :: string where
  "login_failed = ''Failed to log in to repeater. Check password and try again.''"

definition login_timed_out :: string where
  "login_timed_out = ''Timed out waiting for login response''"

definition login_repeater ::
  "int \<Rightarrow> meshcore \<Rightarrow> options_flow \<Rightarrow> add_input \<Rightarrow> string \<Rightarrow> contact \<Rightarrow> step_result" where
  "login_repeater default_interval mc st ui selected_str c =
     (if ev_type (send_login mc c (repeater_password ui)) = ERROR then
        \<lparr>result = Add_repeater_form (Some login_failed), flow = st,
         commands = [Send_login c (repeater_password ui)]\<rparr>
      else
        (case wait_for_event mc LOGIN_SUCCESS None 10 of
           None \<Rightarrow>
             \<lparr>result = Add_repeater_form (Some login_timed_out), flow = st,
              commands = [Send_login c (repeater_password ui),
                          Wait_for_event LOGIN_SUCCESS None 10]\<rparr>
         | Some res \<Rightarrow>
             if ev_type res = ERROR then
               \<lparr>result = Add_repeater_form (Some login_failed), flow = st,
                commands = [Send_login c (repeater_password ui),
                            Wait_for_event LOGIN_SUCCESS None 10]\<rparr>
             else
               probe_and_subscribe default_interval mc st ui selected_str c
                 [Send_login c (repeater_password ui),
                  Wait_for_event LOGIN_SUCCESS None 10]))"

text \<open>
  Lines 450-562, \<open>async_step_add_repeater\<close>.  The first parameter is
  \<open>DEFAULT_REPEATER_UPDATE_INTERVAL\<close> of \<open>const.py\<close>, the second the device handle
  \<open>coordinator.api.mesh_core\<close> of the coordinator whose contacts are cached.  A selection that
  is \<open>None\<close> makes \<open>selected_str.rfind\<close> raise.  The choices of the form are not modelled,
  its \<open>errors["base"]\<close> is.
\<close>

definition already_configured :: string where
  "already_configured = ''Repeater is already configured''"

definition contact_not_found :: string where
  "contact_not_found = ''Contact not found''"

definition async_step_add_repeater ::
  "int \<Rightarrow> meshcore \<Rightarrow> options_flow \<Rightarrow> add_input option \<Rightarrow> step_result" where
  "async_step_add_repeater default_interval mc st user_input =
     (if get_repeater_contacts (hass st) = [] then
        \<lparr>result = No_repeaters_form, flow = st, commands = []\<rparr>
      else
        (case user_input of
           None \<Rightarrow> \<lparr>result = Add_repeater_form None, flow = st, commands = []\<rparr>
         | Some ui \<Rightarrow>
             (case repeater_name ui of
                None \<Rightarrow> \<lparr>result = Raised AttributeError, flow = st, commands = []\<rparr>
              | Some selected_str \<Rightarrow>
                  if Some (extract_prefix selected_str)
                       \<in> set (map pubkey_prefix (repeater_subscriptions st)) then
                    \<lparr>result = Add_repeater_form (Some already_configured), flow = st,
                     commands = []\<rparr>
                  else
                    (case get_contact_by_key_prefix mc (extract_prefix selected_str) of
                       None \<Rightarrow>
                         \<lparr>result = Add_repeater_form (Some contact_not_found), flow = st,
                          commands = []\<rparr>
                     | Some c \<Rightarrow>
                         login_repeater default_interval mc st ui selected_str c))))"

text \<open>Lines 299-338, \<open>async_step_init\<close> with the user's input.\<close>

definition async_step_init ::
  "int \<Rightarrow> meshcore \<Rightarrow> options_flow \<Rightarrow> init_input option \<Rightarrow> step_result" where
  "async_step_init default_interval mc st user_input =
     (case user_input of
        None \<Rightarrow> show_init_form st []
      | Some ui \<Rightarrow>
          if action ui = Some ''add_repeater'' then
            async_step_add_repeater default_interval mc st None
          else if action ui = Some ''remove_repeater'' \<and> truthy (repeater_to_remove ui) then
            remove_repeater st (the (repeater_to_remove ui))
          else \<lparr>result = Create_entry, flow = st, commands = []\<rparr>)"

section \<open>Connection validation\<close>

text \<open>
  What awaiting a call of the connection object leads to: a value, \<open>asyncio.TimeoutError\<close>,
  or another exception with its message.  \<open>connect\<close> is awaited under
  \<open>asyncio.wait_for(..., timeout=CONNECTION_TIMEOUT)\<close>, which raises the timeout error.
\<close>

datatype 'a awaited = Returned 'a | Raised_timeout | Raised_error string

record api =
  connect :: "bool awaited"
  mesh_core :: bool
  send_appstart :: "event awaited"
  disconnect :: "unit awaited"

datatype api_call = Api_connect | Api_send_appstart | Api_disconnect

datatype cannot_connect = CannotConnect string

record device_info =
  title :: string
  device_name :: string
  pubkey :: string

definition payload_get :: "(string \<times> string) list \<Rightarrow> string \<Rightarrow> string \<Rightarrow> string" where
  "payload_get p k d = (case map_of p k of None \<Rightarrow> d | Some v \<Rightarrow> v)"

text \<open>
  Lines 76-111, \<open>validate_common\<close>, with the calls it made.  \<open>CannotConnect\<close> raised inside
  the \<open>try\<close> is caught by \<open>except Exception\<close> and raised again with a prefixed message.
\<close>

definition failed_to_connect :: "string \<Rightarrow> cannot_connect" where
  "failed_to_connect m = CannotConnect (''Failed to connect: '' @ m)"

definition validate_common :: "api \<Rightarrow> (cannot_connect + device_info) \<times> api_call list" where
  "validate_common a =
     (case connect a of
        Raised_timeout \<Rightarrow> (Inl (CannotConnect ''Connection timed out''), [Api_connect])
      | Raised_error m \<Rightarrow> (Inl (failed_to_connect m), [Api_connect])
      | Returned connect_success \<Rightarrow>
          if \<not> connect_success \<or> \<not> mesh_core a then
            (Inl (failed_to_connect ''Device connection failed''), [Api_connect])
          else
            (case send_appstart a of
               Raised_timeout \<Rightarrow>
                 (Inl (CannotConnect ''Connection timed out''), [Api_connect, Api_send_appstart])
             | Raised_error m \<Rightarrow>
                 (Inl (failed_to_connect m), [Api_connect, Api_send_appstart])
             | Returned node_info \<Rightarrow>
                 if ev_type node_info = ERROR then
                   (Inl (failed_to_connect ''Failed to get node info''),
                    [Api_connect, Api_send_appstart])
                 else
                   (case disconnect a of
                      Raised_timeout \<Rightarrow>
                        (Inl (CannotConnect ''Connection timed out''),
                         [Api_connect, Api_send_appstart, Api_disconnect])
                    | Raised_error m \<Rightarrow>
                        (Inl (failed_to_connect m),
                         [Api_connect, Api_send_appstart, Api_disconnect])
                    | Returned u \<Rightarrow>
                        (Inr \<lparr>title = ''MeshCore Node ''
                                 @ payload_get (payload node_info) ''name'' ''Unknown'',
                              device_name = payload_get (payload node_info) ''name'' ''Unknown'',
                              pubkey = payload_get (payload node_info) ''public_key'' []\<rparr>,
                         [Api_connect, Api_send_appstart, Api_disconnect]))))"

section \<open>Key prefixes\<close>

text \<open>
  The device reports a public key as the lower-case hexadecimal text of its bytes.
  \<open>spec_key_prefix\<close> is the key prefix in the words of the specification: the first 12 bytes
  of the key, hex-encoded.  Lines 419 and 535 take the first 12 characters of the text.
\<close>

definition hex_digit :: "nat \<Rightarrow> char" where
  "hex_digit n = ''0123456789abcdef'' ! (n mod 16)"

definition hex_byte :: "8 word \<Rightarrow> string" where
  "hex_byte b = [hex_digit (unat b div 16), hex_digit (unat b mod 16)]"

definition hex_encode :: "8 word list \<Rightarrow> string" where
  "hex_encode bs = concat (map hex_byte bs)"

definition spec_key_prefix :: "8 word list \<Rightarrow> string" where
  "spec_key_prefix k = hex_encode (take 12 k)"

section \<open>Sample data\<close>

text \<open>
  A repeater named Hilltop, as the coordinator caches it and as the device library resolves
  it, a subscription to it, and a subscription record without a key prefix.
\<close>

definition hilltop_key :: string where
  "hilltop_key = ''123456789abcdef0123456789abcdef0123456789abcdef0123456789abcdef0''"

definition hilltop_bytes :: "8 word list" where
  "hilltop_bytes =
     [0x12, 0x34, 0x56, 0x78, 0x9a, 0xbc, 0xde, 0xf0, 0x12, 0x34, 0x56, 0x78, 0x9a, 0xbc, 0xde, 0xf0,
      0x12, 0x34, 0x56, 0x78, 0x9a, 0xbc, 0xde, 0xf0, 0x12, 0x34, 0x56, 0x78, 0x9a, 0xbc, 0xde, 0xf0]"

definition hilltop_record :: cached_contact where
  "hilltop_record =
     \<lparr>adv_name = Some ''Hilltop'', contact_type = Some 2,
      cached_public_key = Some hilltop_key\<rparr>"

definition hilltop_cached :: cache_entry where
  "hilltop_cached = Contact_dict hilltop_record"

definition hilltop :: contact where
  "hilltop = \<lparr>contact_adv_name = ''Hilltop'', public_key = hilltop_key\<rparr>"

definition hilltop_sub :: subscription where
  "hilltop_sub =
     \<lparr>name = Some ''Hilltop'', pubkey_prefix = Some ''123456789abc'',
      firmware_version = Some ''v1.4.2'', password = Some ''secret'',
      update_interval = 3600, enabled = True\<rparr>"

definition legacy_sub :: subscription where
  "legacy_sub =
     \<lparr>name = Some ''Legacy'', pubkey_prefix = None,
      firmware_version = Some ''Unknown'', password = Some ''pw'',
      update_interval = 3600, enabled = True\<rparr>"

definition ghost_sub :: subscription where
  "ghost_sub =
     \<lparr>name = Some ''Ghost'', pubkey_prefix = Some ''ffffffffffff'',
      firmware_version = Some ''Unknown'', password = Some ''pw'',
      update_interval = 3600, enabled = True\<rparr>"

text \<open>Two subscriptions, the key prefix of one being the beginning of the other's.\<close>

definition north_sub :: subscription where
  "north_sub =
     \<lparr>name = Some ''North'', pubkey_prefix = Some ''12'',
      firmware_version = Some ''Unknown'', password = Some ''pw'',
      update_interval = 3600, enabled = True\<rparr>"

definition south_sub :: subscription where
  "south_sub =
     \<lparr>name = Some ''South'', pubkey_prefix = Some ''1234'',
      firmware_version = Some ''Unknown'', password = Some ''pw'',
      update_interval = 3600, enabled = True\<rparr>"

text \<open>
  A device that knows Hilltop only, with the given answers to the login, to the wait for the
  login result, to the version query and to the wait for the version message.
\<close>

definition device :: "event \<Rightarrow> event option \<Rightarrow> event \<Rightarrow> event option \<Rightarrow> meshcore" where
  "device login_sent login_result ver_sent ver_msg =
     \<lparr>get_contact_by_key_prefix =
        (\<lambda>p. if startswith (public_key hilltop) p then Some hilltop else None),
      send_login = (\<lambda>c pw. login_sent),
      send_cmd = (\<lambda>c t. ver_sent),
      wait_for_event = (\<lambda>t f n. if t = LOGIN_SUCCESS then login_result else ver_msg)\<rparr>"

definition ok_event :: event where
  "ok_event = \<lparr>ev_type = OK, payload = []\<rparr>"

definition error_event :: event where
  "error_event = \<lparr>ev_type = ERROR, payload = [(''reason'', ''no_event_received'')]\<rparr>"

definition login_success_event :: event where
  "login_success_event = \<lparr>ev_type = LOGIN_SUCCESS, payload = []\<rparr>"

definition version_event :: event where
  "version_event = \<lparr>ev_type = CONTACT_MSG_RECV, payload = [(''text'', ''v1.4.2'')]\<rparr>"

definition quiet_device :: meshcore where
  "quiet_device = device ok_event None ok_event None"

definition flow_with :: "subscription list \<Rightarrow> cache_entry list \<Rightarrow> options_flow" where
  "flow_with subs cs =
     \<lparr>repeater_subscriptions = subs, entry_subscriptions = subs, hass = Contacts cs\<rparr>"

definition select :: "string \<Rightarrow> add_input" where
  "select label =
     \<lparr>repeater_name = Some label, repeater_password = Some ''secret'',
      repeater_update_interval = None\<rparr>"

definition remove :: "string \<Rightarrow> init_input" where
  "remove label = \<lparr>action = Some ''remove_repeater'', repeater_to_remove = Some label\<rparr>"

text \<open>A connection that opens and answers the identity request with the given event.\<close>

definition answering_api :: "event \<Rightarrow> api" where
  "answering_api e =
     \<lparr>connect = Returned True, mesh_core = True, send_appstart = Returned e,
      disconnect = Returned ()\<rparr>"

lemmas hex_defs = hex_encode_def hex_byte_def hex_digit_def spec_key_prefix_def

lemmas sample_defs =
  hilltop_record_def hilltop_key_def hilltop_cached_def hilltop_def hilltop_sub_def legacy_sub_def ghost_sub_def
  device_def
  ok_event_def error_event_def login_success_event_def version_event_def quiet_device_def
  flow_with_def select_def remove_def

lemmas flow_defs =
  async_step_init_def async_step_add_repeater_def login_repeater_def probe_and_subscribe_def
  new_subscription_def version_of_def show_init_form_def remove_repeater_def kept_def
  repeater_entries_def get_repeater_contacts_def repeater_contact_of_def
  already_configured_def contact_not_found_def login_failed_def login_timed_out_def
  REPEATER_def ROOM_SERVER_def

lemmas string_defs =
  extract_prefix_def extract_name_def py_slice_def slice_index_def startswith_def strip_def
  is_space_def truthy_def display_name_def Let_def

section \<open>Facts about the string primitives\<close>

lemma rfind_notin: "c \<notin> set s \<Longrightarrow> rfind s c = - 1"
  by (induction s) auto

lemma rfind_last: "c \<notin> set ys \<Longrightarrow> rfind (xs @ c # ys) c = int (length xs)"
  by (induction xs) (auto simp: rfind_notin)

lemma slice_index_nat: "slice_index n (int i) = min n i"
  by (simp add: slice_index_def)

lemma py_slice_nat:
  "py_slice s (int a) (int b) =
     take (min (length s) b - min (length s) a) (drop (min (length s) a) s)"
  by (simp add: py_slice_def slice_index_nat)

lemma py_slice_take: "py_slice s 0 (int n) = take n s"
  using py_slice_nat [of s 0 n] by (simp add: min_def)

lemma py_slice_take12: "py_slice s 0 12 = take 12 s"
  using py_slice_take [of s 12] by simp

text \<open>A label built from a prefix without an opening parenthesis gives the prefix back.\<close>

lemma extract_prefix_display:
  assumes "CHR ''('' \<notin> set p"
  shows "extract_prefix (display_name n p) = p"
proof -
  have a: "rfind (display_name n p) CHR ''('' = int (length n + 1)"
    using rfind_last [of "CHR ''(''" "p @ '')''" "n @ '' ''"] assms
    by (simp add: display_name_def)
  have b: "rfind (display_name n p) CHR '')'' = int (length n + 2 + length p)"
    using rfind_last [of "CHR '')''" "[]" "n @ '' ('' @ p"]
    by (simp add: display_name_def)
  have "extract_prefix (display_name n p) =
        py_slice (display_name n p) (int (length n + 2)) (int (length n + 2 + length p))"
    unfolding extract_prefix_def a b by (simp add: add.commute)
  also have "\<dots> = p"
    unfolding py_slice_nat by (simp add: display_name_def)
  finally show ?thesis .
qed

section \<open>What a step does to the subscription list\<close>

lemma flow_add_cases:
  "flow (async_step_add_repeater d mc st ui) = st \<or>
   (\<exists>r. pubkey_prefix r \<notin> set (map pubkey_prefix (repeater_subscriptions st)) \<and>
        flow (async_step_add_repeater d mc st ui) =
          st\<lparr>repeater_subscriptions := repeater_subscriptions st @ [r],
             entry_subscriptions := repeater_subscriptions st @ [r]\<rparr>)"
proof (cases "flow (async_step_add_repeater d mc st ui) = st")
  case True
  then show ?thesis by simp
next
  case False
  then obtain ai sel c where
    a: "ui = Some ai" "repeater_name ai = Some sel"
       "Some (extract_prefix sel) \<notin> set (map pubkey_prefix (repeater_subscriptions st))"
       "async_step_add_repeater d mc st ui =
          probe_and_subscribe d mc st ai sel c
            [Send_login c (repeater_password ai), Wait_for_event LOGIN_SUCCESS None 10]"
    by (auto simp: async_step_add_repeater_def login_repeater_def
        split: option.splits if_splits)
  let ?r = "new_subscription d ai sel
              (wait_for_event mc CONTACT_MSG_RECV (Some (py_slice (public_key c) 0 12)) 15)"
  have "pubkey_prefix ?r = Some (extract_prefix sel)"
    by (simp add: new_subscription_def)
  with a(3) have "pubkey_prefix ?r \<notin> set (map pubkey_prefix (repeater_subscriptions st))"
    by simp
  moreover have "flow (async_step_add_repeater d mc st ui) =
      st\<lparr>repeater_subscriptions := repeater_subscriptions st @ [?r],
         entry_subscriptions := repeater_subscriptions st @ [?r]\<rparr>"
    by (simp add: a(4) probe_and_subscribe_def show_init_form_def Let_def)
  ultimately show ?thesis by blast
qed

lemma subscriptions_after_init:
  "repeater_subscriptions (flow (async_step_init d mc st ui)) = repeater_subscriptions st \<or>
   (\<exists>sel. repeater_subscriptions (flow (async_step_init d mc st ui)) =
      filter (kept (extract_prefix sel)) (repeater_subscriptions st))"
  by (auto simp: async_step_init_def show_init_form_def async_step_add_repeater_def
      remove_repeater_def Let_def split: option.splits)

lemma filter_kept_unprefixed:
  "filter (\<lambda>r. \<not> truthy (pubkey_prefix r)) (filter (kept p) subs) =
   filter (\<lambda>r. \<not> truthy (pubkey_prefix r)) subs"
  by (induction subs) (auto simp: kept_def)

section \<open>Removal never touches a record without a key prefix\<close>

text \<open>
  Claim C10.  A subscription whose \<open>pubkey_prefix\<close> is missing or empty is never removed:
  whatever the input of \<open>async_step_init\<close> (any action, any removal selection), the records
  without a prefix are the same before and after, in the same order and number.
\<close>

theorem remove_never_drops_unprefixed:
  "filter (\<lambda>r. \<not> truthy (pubkey_prefix r))
      (repeater_subscriptions (flow (async_step_init d mc st ui))) =
   filter (\<lambda>r. \<not> truthy (pubkey_prefix r)) (repeater_subscriptions st)"
proof -
  from subscriptions_after_init [of d mc st ui] show ?thesis
  proof (elim disjE exE)
    assume "repeater_subscriptions (flow (async_step_init d mc st ui)) =
            repeater_subscriptions st"
    then show ?thesis by simp
  next
    fix sel
    assume a: "repeater_subscriptions (flow (async_step_init d mc st ui)) =
               filter (kept (extract_prefix sel)) (repeater_subscriptions st)"
    show ?thesis unfolding a by (rule filter_kept_unprefixed)
  qed
qed

theorem remove_never_drops_unprefixed_witness:
  "repeater_subscriptions (flow (async_step_init 3600 quiet_device
       (flow_with [legacy_sub, hilltop_sub] [hilltop_cached])
       (Some (remove ''Hilltop (123456789abc)'')))) = [legacy_sub]
   \<and> filter (\<lambda>r. \<not> truthy (pubkey_prefix r))
       (repeater_subscriptions (flow (async_step_init 3600 quiet_device
          (flow_with [legacy_sub, hilltop_sub] [hilltop_cached])
          (Some (remove ''Hilltop (123456789abc)''))))) = [legacy_sub]"
  using remove_never_drops_unprefixed [of 3600 quiet_device
      "flow_with [legacy_sub, hilltop_sub] [hilltop_cached]"
      "Some (remove ''Hilltop (123456789abc)'')"]
  by (simp add: sample_defs flow_defs string_defs)

section \<open>Unique key prefixes are preserved\<close>

text \<open>
  Claim C8.  If no two subscriptions of the list have the same \<open>pubkey_prefix\<close>, the same
  holds of the list after \<open>async_step_add_repeater\<close> and after \<open>async_step_init\<close> (which
  performs the removal), for every input and every answer of the device.
\<close>

theorem unique_prefixes_preserved:
  assumes "distinct (map pubkey_prefix (repeater_subscriptions st))"
  shows "distinct (map pubkey_prefix
           (repeater_subscriptions (flow (async_step_add_repeater d mc st ai)))) \<and>
         distinct (map pubkey_prefix
           (repeater_subscriptions (flow (async_step_init d mc st ii))))"
proof
  show "distinct (map pubkey_prefix
           (repeater_subscriptions (flow (async_step_add_repeater d mc st ai))))"
    using flow_add_cases [of d mc st ai] assms by auto
  show "distinct (map pubkey_prefix
           (repeater_subscriptions (flow (async_step_init d mc st ii))))"
    using subscriptions_after_init [of d mc st ii] assms
    by (auto simp: distinct_map_filter)
qed

theorem unique_prefixes_preserved_witness:
  "distinct (map pubkey_prefix [legacy_sub])
   \<and> repeater_subscriptions (flow (async_step_add_repeater 3600
         (device ok_event (Some login_success_event) ok_event (Some version_event))
         (flow_with [legacy_sub] [hilltop_cached])
         (Some (select ''Hilltop (123456789abc)'')))) = [legacy_sub, hilltop_sub]
   \<and> distinct (map pubkey_prefix (repeater_subscriptions (flow (async_step_add_repeater 3600
         (device ok_event (Some login_success_event) ok_event (Some version_event))
         (flow_with [legacy_sub] [hilltop_cached])
         (Some (select ''Hilltop (123456789abc)''))))))
   \<and> distinct (map pubkey_prefix (repeater_subscriptions (flow (async_step_init 3600
         (device ok_event (Some login_success_event) ok_event (Some version_event))
         (flow_with [legacy_sub] [hilltop_cached])
         (Some (remove ''Hilltop (123456789abc)''))))))"
  using unique_prefixes_preserved [of "flow_with [legacy_sub] [hilltop_cached]" 3600
      "device ok_event (Some login_success_event) ok_event (Some version_event)"
      "Some (select ''Hilltop (123456789abc)'')" "Some (remove ''Hilltop (123456789abc)'')"]
  by (simp add: sample_defs flow_defs string_defs)

section \<open>Adding a repeater\<close>

text \<open>
  A login command in the trace of \<open>async_step_add_repeater\<close> means that a repeater was
  selected and that the step went through \<open>login_repeater\<close> with the resolved contact.
\<close>

lemma login_sent:
  assumes "Send_login c pw \<in> set (commands (async_step_add_repeater d mc st ui))"
  obtains ai sel where "ui = Some ai" "repeater_name ai = Some sel" "pw = repeater_password ai"
    "async_step_add_repeater d mc st ui = login_repeater d mc st ai sel c"
  using assms
  by (auto simp: async_step_add_repeater_def login_repeater_def probe_and_subscribe_def
      show_init_form_def Let_def split: option.splits if_splits)

subsection \<open>A prefix that is already subscribed\<close>

text \<open>
  Claim C1, as stated, fails: with a subscription to Hilltop and a selection of Hilltop, but
  no repeater in the coordinator's contact cache, the step shows the no-repeaters form (the
  guard at lines 458-466 comes first) and reports no already-configured error.
\<close>

theorem add_subscribed_prefix_counterexample:
  "Some (extract_prefix ''Hilltop (123456789abc)'') \<in> set (map pubkey_prefix [hilltop_sub])
   \<and> result (async_step_add_repeater 3600 quiet_device (flow_with [hilltop_sub] [])
        (Some (select ''Hilltop (123456789abc)''))) = No_repeaters_form
   \<and> result (async_step_add_repeater 3600 quiet_device (flow_with [hilltop_sub] [])
        (Some (select ''Hilltop (123456789abc)''))) \<noteq> Add_repeater_form (Some already_configured)"
  by (simp add: sample_defs flow_defs string_defs)

text \<open>
  Claim C1, amended.  For every subscription list and every selected repeater whose extracted
  prefix is among the list's \<open>pubkey_prefix\<close> values, no command is sent to the device and
  the state (both subscription lists) is unchanged; the step fails with the
  already-configured error whenever the contact cache offers at least one repeater, and
  shows the no-repeaters form otherwise.
\<close>

theorem add_rejects_subscribed_prefix:
  assumes "repeater_name ui = Some sel"
    and "Some (extract_prefix sel) \<in> set (map pubkey_prefix (repeater_subscriptions st))"
  shows "commands (async_step_add_repeater d mc st (Some ui)) = []
       \<and> flow (async_step_add_repeater d mc st (Some ui)) = st
       \<and> result (async_step_add_repeater d mc st (Some ui)) =
           (if get_repeater_contacts (hass st) = [] then No_repeaters_form
            else Add_repeater_form (Some already_configured))"
  using assms by (simp add: async_step_add_repeater_def)

theorem add_rejects_subscribed_prefix_witness:
  "repeater_name (select ''Hilltop (123456789abc)'') = Some ''Hilltop (123456789abc)''
   \<and> Some (extract_prefix ''Hilltop (123456789abc)'') \<in> set (map pubkey_prefix [hilltop_sub])
   \<and> async_step_add_repeater 3600
        (device ok_event (Some login_success_event) ok_event (Some version_event))
        (flow_with [hilltop_sub] [hilltop_cached]) (Some (select ''Hilltop (123456789abc)'')) =
      \<lparr>result = Add_repeater_form (Some ''Repeater is already configured''),
       flow = flow_with [hilltop_sub] [hilltop_cached], commands = []\<rparr>"
  using add_rejects_subscribed_prefix
      [of "select ''Hilltop (123456789abc)''" "''Hilltop (123456789abc)''"
      "flow_with [hilltop_sub] [hilltop_cached]" 3600
      "device ok_event (Some login_success_event) ok_event (Some version_event)"]
  by (simp add: sample_defs flow_defs string_defs)

subsection \<open>A prefix that no contact matches\<close>

text \<open>
  Claim C9, as stated, fails: the device knows no contact for the prefix \<open>ffffffffffff\<close>,
  yet with that prefix already subscribed the step reports the already-configured error
  (the check at lines 491-495 comes before the lookup at line 501), and with an empty
  contact cache it shows the no-repeaters form; neither is the contact-not-found error.
\<close>

theorem add_unknown_contact_counterexample:
  "get_contact_by_key_prefix quiet_device (extract_prefix ''Ghost (ffffffffffff)'') = None
   \<and> result (async_step_add_repeater 3600 quiet_device (flow_with [ghost_sub] [hilltop_cached])
        (Some (select ''Ghost (ffffffffffff)''))) = Add_repeater_form (Some already_configured)
   \<and> result (async_step_add_repeater 3600 quiet_device (flow_with [] [])
        (Some (select ''Ghost (ffffffffffff)''))) = No_repeaters_form
   \<and> Add_repeater_form (Some already_configured) \<noteq> Add_repeater_form (Some contact_not_found)"
  by (simp add: sample_defs flow_defs string_defs)

text \<open>
  Claim C9, amended.  If no contact of the device matches the extracted prefix, no command
  is sent and the state is unchanged; the step fails with the contact-not-found error
  whenever the contact cache offers at least one repeater and the prefix is not yet
  subscribed (an empty cache gives the no-repeaters form, a subscribed prefix the
  already-configured error).
\<close>

theorem add_rejects_unknown_contact:
  assumes "repeater_name ui = Some sel"
    and "get_contact_by_key_prefix mc (extract_prefix sel) = None"
  shows "commands (async_step_add_repeater d mc st (Some ui)) = []
       \<and> flow (async_step_add_repeater d mc st (Some ui)) = st
       \<and> result (async_step_add_repeater d mc st (Some ui)) =
           (if get_repeater_contacts (hass st) = [] then No_repeaters_form
            else if Some (extract_prefix sel)
                      \<in> set (map pubkey_prefix (repeater_subscriptions st))
            then Add_repeater_form (Some already_configured)
            else Add_repeater_form (Some contact_not_found))"
  using assms by (simp add: async_step_add_repeater_def)

theorem add_rejects_unknown_contact_witness:
  "repeater_name (select ''Ghost (ffffffffffff)'') = Some ''Ghost (ffffffffffff)''
   \<and> get_contact_by_key_prefix quiet_device (extract_prefix ''Ghost (ffffffffffff)'') = None
   \<and> async_step_add_repeater 3600 quiet_device
        (flow_with [hilltop_sub] [hilltop_cached]) (Some (select ''Ghost (ffffffffffff)'')) =
      \<lparr>result = Add_repeater_form (Some ''Contact not found''),
       flow = flow_with [hilltop_sub] [hilltop_cached], commands = []\<rparr>"
  using add_rejects_unknown_contact
      [of "select ''Ghost (ffffffffffff)''" "''Ghost (ffffffffffff)''" quiet_device
      3600 "flow_with [hilltop_sub] [hilltop_cached]"]
  by (simp add: sample_defs flow_defs string_defs)

subsection \<open>A login that fails\<close>

text \<open>
  Claim C2.  Once the login command has been sent and its send result is not an error, the
  step awaits the \<open>LOGIN_SUCCESS\<close> event with a timeout of 10 seconds; if the wait times
  out (\<open>None\<close>) or yields an event of kind \<open>ERROR\<close>, the step ends in the add-repeater form
  with a login error (the time-out message, respectively the login-failed message), nothing
  else is sent, and the state, hence the subscription list, is unchanged.
\<close>

theorem login_failure_adds_nothing:
  assumes "Send_login c pw \<in> set (commands (async_step_add_repeater d mc st ui))"
    and "ev_type (send_login mc c pw) \<noteq> ERROR"
    and "(case wait_for_event mc LOGIN_SUCCESS None 10 of
            None \<Rightarrow> True | Some e \<Rightarrow> ev_type e = ERROR)"
  shows "commands (async_step_add_repeater d mc st ui) =
           [Send_login c pw, Wait_for_event LOGIN_SUCCESS None 10]
       \<and> flow (async_step_add_repeater d mc st ui) = st
       \<and> result (async_step_add_repeater d mc st ui) =
           Add_repeater_form (Some (if wait_for_event mc LOGIN_SUCCESS None 10 = None
                                    then login_timed_out else login_failed))"
proof -
  from assms(1) obtain ai sel where
    a: "pw = repeater_password ai"
       "async_step_add_repeater d mc st ui = login_repeater d mc st ai sel c"
    by (rule login_sent)
  show ?thesis
    using assms(2,3) unfolding a by (simp add: login_repeater_def split: option.splits)
qed

theorem login_failure_adds_nothing_witness:
  "Send_login hilltop (Some ''secret'') \<in> set (commands (async_step_add_repeater 3600
       (device ok_event None ok_event None) (flow_with [legacy_sub] [hilltop_cached])
       (Some (select ''Hilltop (123456789abc)''))))
   \<and> ev_type (send_login (device ok_event None ok_event None) hilltop (Some ''secret'')) \<noteq> ERROR
   \<and> wait_for_event (device ok_event None ok_event None) LOGIN_SUCCESS None 10 = None
   \<and> async_step_add_repeater 3600
       (device ok_event None ok_event None) (flow_with [legacy_sub] [hilltop_cached])
       (Some (select ''Hilltop (123456789abc)'')) =
      \<lparr>result = Add_repeater_form (Some ''Timed out waiting for login response''),
       flow = flow_with [legacy_sub] [hilltop_cached],
       commands = [Send_login hilltop (Some ''secret''), Wait_for_event LOGIN_SUCCESS None 10]\<rparr>
   \<and> wait_for_event (device ok_event (Some error_event) ok_event None) LOGIN_SUCCESS None 10 =
       Some error_event
   \<and> ev_type error_event = ERROR
   \<and> async_step_add_repeater 3600
       (device ok_event (Some error_event) ok_event None)
       (flow_with [legacy_sub] [hilltop_cached])
       (Some (select ''Hilltop (123456789abc)'')) =
      \<lparr>result = Add_repeater_form
          (Some ''Failed to log in to repeater. Check password and try again.''),
       flow = flow_with [legacy_sub] [hilltop_cached],
       commands = [Send_login hilltop (Some ''secret''), Wait_for_event LOGIN_SUCCESS None 10]\<rparr>"
  using login_failure_adds_nothing
      [of hilltop "Some ''secret''" 3600 "device ok_event None ok_event None"
      "flow_with [legacy_sub] [hilltop_cached]" "Some (select ''Hilltop (123456789abc)'')"]
    login_failure_adds_nothing
      [of hilltop "Some ''secret''" 3600 "device ok_event (Some error_event) ok_event None"
      "flow_with [legacy_sub] [hilltop_cached]" "Some (select ''Hilltop (123456789abc)'')"]
  by (simp add: sample_defs flow_defs string_defs)

subsection \<open>The version probe\<close>

text \<open>
  Claim C4, as stated, fails: the login succeeds, sending the version query returns an
  \<open>ERROR\<close> result (one of the claim's probe failures), and the awaited contact message
  arrives all the same; the record then carries the message's text, not \<open>Unknown\<close>.  The
  result of the send is only logged (lines 532-533).
\<close>

theorem version_probe_counterexample:
  "ev_type (send_cmd (device ok_event (Some login_success_event) error_event (Some version_event))
       hilltop ''ver'') = ERROR
   \<and> firmware_version (last (repeater_subscriptions (flow (async_step_add_repeater 3600
       (device ok_event (Some login_success_event) error_event (Some version_event))
       (flow_with [] [hilltop_cached]) (Some (select ''Hilltop (123456789abc)'')))))) =
     Some ''v1.4.2''
   \<and> Some ''v1.4.2'' \<noteq> Some ''Unknown''"
  by (simp add: sample_defs flow_defs string_defs)

text \<open>
  Claim C4, amended.  If the login succeeds (the login command is sent, its send result is
  not an error, and the wait for \<open>LOGIN_SUCCESS\<close> yields an event that is not an error),
  then, whatever sending the version query returns, exactly one record is appended to the
  subscription list and stored in the config entry, with \<open>enabled\<close> true; its
  \<open>firmware_version\<close> is the text of the awaited message when that is an event of kind
  \<open>CONTACT_MSG_RECV\<close>, and \<open>Unknown\<close> when the wait times out or yields an event of any
  other kind (an error among them).
\<close>

theorem login_success_adds_subscription:
  assumes "Send_login c pw \<in> set (commands (async_step_add_repeater d mc st ui))"
    and "ev_type (send_login mc c pw) \<noteq> ERROR"
    and "wait_for_event mc LOGIN_SUCCESS None 10 = Some e"
    and "ev_type e \<noteq> ERROR"
  shows "butlast (repeater_subscriptions (flow (async_step_add_repeater d mc st ui))) =
           repeater_subscriptions st
       \<and> length (repeater_subscriptions (flow (async_step_add_repeater d mc st ui))) =
           Suc (length (repeater_subscriptions st))
       \<and> entry_subscriptions (flow (async_step_add_repeater d mc st ui)) =
           repeater_subscriptions (flow (async_step_add_repeater d mc st ui))
       \<and> enabled (last (repeater_subscriptions (flow (async_step_add_repeater d mc st ui))))
       \<and> firmware_version
           (last (repeater_subscriptions (flow (async_step_add_repeater d mc st ui)))) =
           (case wait_for_event mc CONTACT_MSG_RECV (Some (take 12 (public_key c))) 15 of
              None \<Rightarrow> Some ''Unknown''
            | Some m \<Rightarrow> if ev_type m = CONTACT_MSG_RECV then map_of (payload m) ''text''
                        else Some ''Unknown'')"
proof -
  from assms(1) obtain ai sel where
    a: "pw = repeater_password ai"
       "async_step_add_repeater d mc st ui = login_repeater d mc st ai sel c"
    by (rule login_sent)
  show ?thesis
    using assms(2,3,4) unfolding a
    by (simp add: login_repeater_def probe_and_subscribe_def show_init_form_def Let_def
        new_subscription_def version_of_def py_slice_take12 split: option.splits)
qed

theorem login_success_adds_subscription_witness:
  "Send_login hilltop (Some ''secret'') \<in> set (commands (async_step_add_repeater 3600
       (device ok_event (Some login_success_event) ok_event None)
       (flow_with [legacy_sub] [hilltop_cached]) (Some (select ''Hilltop (123456789abc)''))))
   \<and> ev_type (send_login (device ok_event (Some login_success_event) ok_event None)
         hilltop (Some ''secret'')) \<noteq> ERROR
   \<and> wait_for_event (device ok_event (Some login_success_event) ok_event None)
         LOGIN_SUCCESS None 10 = Some login_success_event
   \<and> ev_type login_success_event \<noteq> ERROR
   \<and> repeater_subscriptions (flow (async_step_add_repeater 3600
       (device ok_event (Some login_success_event) ok_event None)
       (flow_with [legacy_sub] [hilltop_cached]) (Some (select ''Hilltop (123456789abc)'')))) =
     [legacy_sub,
      \<lparr>name = Some ''Hilltop'', pubkey_prefix = Some ''123456789abc'',
       firmware_version = Some ''Unknown'', password = Some ''secret'',
       update_interval = 3600, enabled = True\<rparr>]"
  using login_success_adds_subscription [of hilltop "Some ''secret''" 3600
      "device ok_event (Some login_success_event) ok_event None"
      "flow_with [legacy_sub] [hilltop_cached]" "Some (select ''Hilltop (123456789abc)'')"
      login_success_event]
  by (simp add: sample_defs flow_defs string_defs)

section \<open>Removing a repeater\<close>

text \<open>
  Claim C5, as stated, fails: North (prefix \<open>12\<close>) and South (prefix \<open>1234\<close>) are
  subscribed, the label of North is selected for removal, and the list that results is
  empty.  South, whose prefix is not the selected one, is removed too, because line 324
  compares with \<open>startswith\<close>.
\<close>

theorem remove_counterexample:
  "''North (12)'' \<in> set (repeater_entries [north_sub, south_sub])
   \<and> pubkey_prefix south_sub \<noteq> Some (extract_prefix ''North (12)'')
   \<and> repeater_subscriptions (flow (async_step_init 3600 quiet_device
        (flow_with [north_sub, south_sub] []) (Some (remove ''North (12)'')))) = []"
  by (simp add: north_sub_def south_sub_def sample_defs flow_defs string_defs)

text \<open>
  Claim C5, amended.  For every subscription list and every removal selection that is the
  label of a subscribed repeater \<open>r\<close> (non-empty name and prefix, the prefix without an
  opening parenthesis), the removal yields, in their order and unchanged, exactly the
  subscriptions that line 323-324 keeps: those whose prefix is missing, empty, or does not
  start with the selected prefix.  The selected subscription is not among them; and when no
  other subscription has a prefix starting with the selected one, the result is the list
  without \<open>r\<close>.
\<close>

theorem remove_drops_matching_prefixes:
  assumes "r \<in> set (repeater_subscriptions st)"
    and "name r = Some n" and "n \<noteq> []"
    and "pubkey_prefix r = Some p" and "p \<noteq> []" and "CHR ''('' \<notin> set p"
  shows "repeater_subscriptions
           (flow (async_step_init d mc st (Some (remove (display_name n p))))) =
           filter (kept p) (repeater_subscriptions st)
       \<and> r \<notin> set (repeater_subscriptions
                     (flow (async_step_init d mc st (Some (remove (display_name n p))))))
       \<and> (list_all (\<lambda>x. x = r \<or> kept p x) (repeater_subscriptions st) \<longrightarrow>
            repeater_subscriptions
              (flow (async_step_init d mc st (Some (remove (display_name n p))))) =
            removeAll r (repeater_subscriptions st))"
proof -
  have lab: "truthy (Some (display_name n p))"
    by (simp add: truthy_def display_name_def)
  have res: "repeater_subscriptions
        (flow (async_step_init d mc st (Some (remove (display_name n p))))) =
      filter (kept p) (repeater_subscriptions st)"
    using lab
    by (simp add: async_step_init_def remove_def show_init_form_def remove_repeater_def
        Let_def extract_prefix_display [OF assms(6)])
  have m: "\<not> kept p r"
    using assms(4,5) by (simp add: kept_def truthy_def startswith_def)
  have "filter (kept p) xs = removeAll r xs"
    if "list_all (\<lambda>x. x = r \<or> kept p x) xs" for xs
    using that m by (induction xs) auto
  with res m show ?thesis by simp
qed

theorem remove_drops_matching_prefixes_witness:
  "hilltop_sub \<in> set [legacy_sub, hilltop_sub, ghost_sub]
   \<and> name hilltop_sub = Some ''Hilltop'' \<and> pubkey_prefix hilltop_sub = Some ''123456789abc''
   \<and> CHR ''('' \<notin> set ''123456789abc''
   \<and> list_all (\<lambda>x. x = hilltop_sub \<or> kept ''123456789abc'' x)
        [legacy_sub, hilltop_sub, ghost_sub]
   \<and> repeater_subscriptions (flow (async_step_init 3600 quiet_device
        (flow_with [legacy_sub, hilltop_sub, ghost_sub] [hilltop_cached])
        (Some (remove ''Hilltop (123456789abc)'')))) = [legacy_sub, ghost_sub]"
  using remove_drops_matching_prefixes [of hilltop_sub
      "flow_with [legacy_sub, hilltop_sub, ghost_sub] [hilltop_cached]"
      "''Hilltop''" "''123456789abc''" 3600 quiet_device]
  by (simp add: sample_defs flow_defs string_defs)

section \<open>The key prefix of a contact\<close>

lemma hex_encode_Cons: "hex_encode (b # bs) = hex_byte b @ hex_encode bs"
  by (simp add: hex_encode_def)

lemma take_hex_encode: "take (2 * n) (hex_encode k) = hex_encode (take n k)"
proof (induction k arbitrary: n)
  case Nil
  then show ?case by (simp add: hex_encode_def)
next
  case (Cons b bs)
  show ?case
  proof (cases n)
    case 0
    then show ?thesis by (simp add: hex_encode_def)
  next
    case (Suc m)
    then show ?thesis
      using Cons.IH [of m] by (simp add: hex_encode_Cons hex_byte_def)
  qed
qed

lemma hex_digit_no_paren: "hex_digit n \<noteq> CHR ''(''"
proof -
  have "hex_digit n \<in> set ''0123456789abcdef''"
    unfolding hex_digit_def by (rule nth_mem) simp
  then show ?thesis by auto
qed

lemma hex_encode_no_paren: "CHR ''('' \<notin> set (hex_encode k)"
  by (induction k) (auto simp: hex_encode_def hex_byte_def hex_digit_no_paren [symmetric])

lemma hex_encode_nonempty:
  "k \<noteq> [] \<Longrightarrow> hex_encode k \<noteq> [] \<and> hex_encode (take 6 k) \<noteq> []"
  by (cases k) (simp_all add: hex_encode_def hex_byte_def)

lemma first_twelve_characters: "py_slice (hex_encode k) 0 12 = hex_encode (take 6 k)"
  using take_hex_encode [of 6 k] by (simp add: py_slice_take12)

lemma version_probe_sent:
  assumes "Send_cmd c t \<in> set (commands (async_step_add_repeater d mc st ui))"
  obtains ai sel where "ui = Some ai" "repeater_name ai = Some sel"
    "async_step_add_repeater d mc st ui =
       probe_and_subscribe d mc st ai sel c
         [Send_login c (repeater_password ai), Wait_for_event LOGIN_SUCCESS None 10]"
  using assms
  by (auto simp: async_step_add_repeater_def login_repeater_def probe_and_subscribe_def
      show_init_form_def Let_def split: option.splits if_splits)

text \<open>
  Claim C3, as stated, fails: for the 32-byte key of Hilltop the prefix under which the
  contact is offered is \<open>123456789abc\<close>, the first 12 characters of the hexadecimal text,
  while the hex encoding of the first 12 bytes is twice as long.
\<close>

theorem key_prefix_counterexample:
  "cached_public_key hilltop_record = Some (hex_encode hilltop_bytes)
   \<and> get_repeater_contacts (Contacts [hilltop_cached]) = [(''123456789abc'', ''Hilltop'')]
   \<and> spec_key_prefix hilltop_bytes = ''123456789abcdef012345678''
   \<and> ''123456789abc'' \<noteq> ''123456789abcdef012345678''"
  by (simp add: hilltop_bytes_def hex_defs sample_defs flow_defs string_defs)

text \<open>
  Claim C3, amended.  For every contact with a non-empty public key \<open>k\<close>, reported as
  hexadecimal text, the key prefix is the first 12 characters of that text, which is the
  hex encoding of the first 6 bytes of the key (of the whole key when it is shorter): a
  named repeater or room server of the contact cache is offered under it, and when the
  contact is selected by its label and the step reaches the version probe, the awaited
  message is filtered by it and the record appended stores it as \<open>pubkey_prefix\<close>.
\<close>

theorem key_prefix_is_first_six_bytes:
  assumes "k \<noteq> []"
    and "nm \<noteq> []"
    and "contact_type cc = Some REPEATER \<or> contact_type cc = Some ROOM_SERVER"
    and "adv_name cc = Some nm"
    and "cached_public_key cc = Some (hex_encode k)"
    and "Contact_dict cc \<in> set cs"
    and "public_key c = hex_encode k"
    and "repeater_name ui = Some (display_name nm (hex_encode (take 6 k)))"
    and "Send_cmd c ''ver'' \<in> set (commands (async_step_add_repeater d mc st (Some ui)))"
  shows "(hex_encode (take 6 k), nm) \<in> set (get_repeater_contacts (Contacts cs))
       \<and> Wait_for_event CONTACT_MSG_RECV (Some (hex_encode (take 6 k))) 15
           \<in> set (commands (async_step_add_repeater d mc st (Some ui)))
       \<and> pubkey_prefix (last (repeater_subscriptions
             (flow (async_step_add_repeater d mc st (Some ui))))) =
           Some (hex_encode (take 6 k))"
proof -
  have "repeater_contact_of (Contact_dict cc) = [(hex_encode (take 6 k), nm)]"
    using assms(1-5) hex_encode_nonempty [of k]
    by (auto simp: repeater_contact_of_def truthy_def first_twelve_characters Let_def)
  with assms(6) have a: "(hex_encode (take 6 k), nm) \<in> set (get_repeater_contacts (Contacts cs))"
    by (force simp: get_repeater_contacts_def)
  from assms(9) obtain ai sel where
    b: "Some ui = Some ai" "repeater_name ai = Some sel"
       "async_step_add_repeater d mc st (Some ui) =
          probe_and_subscribe d mc st ai sel c
            [Send_login c (repeater_password ai), Wait_for_event LOGIN_SUCCESS None 10]"
    by (rule version_probe_sent)
  from b(1,2) assms(8) have sel: "sel = display_name nm (hex_encode (take 6 k))"
    by simp
  have "extract_prefix sel = hex_encode (take 6 k)"
    unfolding sel by (rule extract_prefix_display) (rule hex_encode_no_paren)
  then show ?thesis
    using a unfolding b(3)
    by (simp add: probe_and_subscribe_def show_init_form_def Let_def new_subscription_def
        assms(7) first_twelve_characters)
qed

theorem key_prefix_is_first_six_bytes_witness:
  "hilltop_bytes \<noteq> []
   \<and> adv_name hilltop_record = Some ''Hilltop''
   \<and> contact_type hilltop_record = Some REPEATER
   \<and> cached_public_key hilltop_record = Some (hex_encode hilltop_bytes)
   \<and> public_key hilltop = hex_encode hilltop_bytes
   \<and> display_name ''Hilltop'' (hex_encode (take 6 hilltop_bytes)) = ''Hilltop (123456789abc)''
   \<and> Send_cmd hilltop ''ver'' \<in> set (commands (async_step_add_repeater 3600
        (device ok_event (Some login_success_event) ok_event (Some version_event))
        (flow_with [] [hilltop_cached]) (Some (select ''Hilltop (123456789abc)''))))
   \<and> (''123456789abc'', ''Hilltop'') \<in> set (get_repeater_contacts (Contacts [hilltop_cached]))
   \<and> Wait_for_event CONTACT_MSG_RECV (Some ''123456789abc'') 15
        \<in> set (commands (async_step_add_repeater 3600
        (device ok_event (Some login_success_event) ok_event (Some version_event))
        (flow_with [] [hilltop_cached]) (Some (select ''Hilltop (123456789abc)''))))
   \<and> pubkey_prefix (last (repeater_subscriptions (flow (async_step_add_repeater 3600
        (device ok_event (Some login_success_event) ok_event (Some version_event))
        (flow_with [] [hilltop_cached]) (Some (select ''Hilltop (123456789abc)'')))))) =
      Some ''123456789abc''"
  using key_prefix_is_first_six_bytes [of hilltop_bytes "''Hilltop''" hilltop_record
      "[hilltop_cached]" hilltop "select ''Hilltop (123456789abc)''" 3600
      "device ok_event (Some login_success_event) ok_event (Some version_event)"
      "flow_with [] [hilltop_cached]"]
  by (simp add: hilltop_bytes_def hex_defs sample_defs flow_defs string_defs)

section \<open>An error answer to the identity request\<close>

text \<open>
  Claim C6.  When the connection opens and the identity request is answered by an event of
  kind \<open>ERROR\<close>, \<open>validate_common\<close> fails with \<open>CannotConnect\<close>, as claimed; but the calls it
  made are the connect and the identity request only.  \<open>api.disconnect()\<close> (line 96) is
  reached on the successful path alone, so the connection is not released on this one.
\<close>

theorem identity_error_skips_disconnect:
  assumes "connect a = Returned True" and "mesh_core a"
    and "send_appstart a = Returned e" and "ev_type e = ERROR"
  shows "validate_common a =
           (Inl (CannotConnect ''Failed to connect: Failed to get node info''),
            [Api_connect, Api_send_appstart])"
  using assms by (simp add: validate_common_def failed_to_connect_def)

theorem identity_error_skips_disconnect_witness:
  "validate_common (answering_api error_event) =
     (Inl (CannotConnect ''Failed to connect: Failed to get node info''),
      [Api_connect, Api_send_appstart])
   \<and> Api_disconnect \<notin> set (snd (validate_common (answering_api error_event)))
   \<and> Api_disconnect \<in> set (snd (validate_common (answering_api ok_event)))"
  using identity_error_skips_disconnect [of "answering_api error_event" error_event]
  by (simp add: answering_api_def sample_defs validate_common_def failed_to_connect_def
      payload_get_def)

end
